theory Spec2Isabelle
  imports Complex_Main
begin

section \<open>JavaScript values used by the grid views\<close>

text \<open>
  The grid views compute with JavaScript numbers. In the definitions of the views a finite
  number is the real it denotes and the arithmetic is that of \<^typ>\<open>real\<close>; the rounding
  of doubles is modelled separately, for the latitude line of \<open>DetailedGridView\<close>, where
  it decides a claim. \<open>NaN\<close> is kept as a value of its own where the source tests for it.
  Ranks, grid sizes and loop indices are integers.
\<close>

datatype jsnum = NaN | Num real

datatype jsval = JUndefined | JNull | JNumber jsnum | JString string

text \<open>
  \<open>Number(v)\<close>: \<open>undefined\<close> becomes \<open>NaN\<close>, \<open>null\<close> becomes \<open>0\<close>, a number is
  itself, and a string is parsed by the language's \<open>StringToNumber\<close>, which is a parameter
  here (it gives \<open>NaN\<close> for a string that is not numeric).
\<close>

definition Number_js :: "(string \<Rightarrow> jsnum) \<Rightarrow> jsval \<Rightarrow> jsnum" where
  "Number_js parse v =
     (case v of JUndefined \<Rightarrow> NaN | JNull \<Rightarrow> Num 0 | JNumber x \<Rightarrow> x | JString s \<Rightarrow> parse s)"

text \<open>A number is falsy when it is \<open>NaN\<close> or zero; \<open>x || d\<close> is \<open>d\<close> for a falsy \<open>x\<close>.\<close>

definition falsy :: "jsnum \<Rightarrow> bool" where
  "falsy x = (case x of NaN \<Rightarrow> True | Num r \<Rightarrow> r = 0)"

definition js_or :: "jsnum \<Rightarrow> jsnum \<Rightarrow> jsnum" where
  "js_or x d = (if falsy x then d else x)"

text \<open>\<open>n.toString()\<close> and \<open>`${n}`\<close> for an integer \<open>n\<close>: its decimal digits.\<close>

fun digits_of :: "nat \<Rightarrow> string" where
  "digits_of n =
     (if n < 10 then [''0123456789'' ! n]
      else digits_of (n div 10) @ [''0123456789'' ! (n mod 10)])"

declare digits_of.simps [simp del]

definition toString_js :: "int \<Rightarrow> string" where
  "toString_js r = (if r < 0 then CHR ''-'' # digits_of (nat (- r)) else digits_of (nat r))"

record coord =
  lat :: real
  lng :: real

section \<open>Ranking classifier\<close>

subsection \<open>\<open>GoogleMap.initializeMap\<close>: icon colour, icon text and z-index\<close>

definition gm_iconColor :: "int \<Rightarrow> string" where
  "gm_iconColor ranking =
     (if ranking \<le> 3 then ''#4CAF50''
      else if ranking \<le> 7 then ''#8BC34A''
      else if ranking \<le> 10 then ''#FFC107''
      else if ranking \<le> 15 then ''#FF9800''
      else if ranking \<le> 20 then ''#F44336''
      else ''#9E9E9E'')"

definition gm_iconText :: "int \<Rightarrow> string" where
  "gm_iconText ranking =
     (if ranking \<le> 3 then toString_js ranking
      else if ranking \<le> 7 then toString_js ranking
      else if ranking \<le> 10 then toString_js ranking
      else if ranking \<le> 15 then toString_js ranking
      else if ranking \<le> 20 then toString_js ranking
      else ''20+'')"

definition gm_zIndex :: "int \<Rightarrow> int" where
  "gm_zIndex ranking = 30 - (if ranking > 20 then 21 else ranking)"

subsection \<open>\<open>DetailedGridView\<close>: colour, label and the three z-index formulas\<close>

definition getRankingColor :: "int \<Rightarrow> string" where
  "getRankingColor ranking =
     (if ranking \<le> 3 then ''#059669''
      else if ranking \<le> 7 then ''#10b981''
      else if ranking \<le> 10 then ''#f59e0b''
      else if ranking \<le> 15 then ''#f97316''
      else if ranking \<ge> 16 then ''#ef4444''
      else ''#ef4444'')"

definition formatRankingLabel :: "int \<Rightarrow> string" where
  "formatRankingLabel ranking = (if ranking \<ge> 20 then ''20+'' else toString_js ranking)"

text \<open>First version of the view: \<open>ranking <= 20 ? (21 - ranking) : 0\<close>.\<close>

definition dgv_zIndex_icon :: "int \<Rightarrow> int" where
  "dgv_zIndex_icon ranking = (if ranking \<le> 20 then 21 - ranking else 0)"

text \<open>Second version: \<open>100 - ranking\<close>.\<close>

definition dgv_zIndex_label :: "int \<Rightarrow> int" where
  "dgv_zIndex_label ranking = 100 - ranking"

text \<open>Third version: \<open>100 - (i * gridSize + j)\<close>, a function of the cell and not of the rank.\<close>

definition dgv_zIndex_cell :: "int \<Rightarrow> int \<Rightarrow> int \<Rightarrow> int" where
  "dgv_zIndex_cell gridSize i j = 100 - (i * gridSize + j)"

section \<open>Grid-point coordinates\<close>

text \<open>\<open>for (let i = 0; i < n; i++)\<close> visits \<open>0, \<dots>, n - 1\<close>, and nothing when \<open>n \<le> 0\<close>.\<close>

definition loop_range :: "int \<Rightarrow> nat list" where
  "loop_range n = [0..<nat n]"

subsection \<open>\<open>GoogleMap.initializeMap\<close>: miles, \<open>69\<close> miles per degree\<close>

definition gm_point :: "coord \<Rightarrow> int \<Rightarrow> real \<Rightarrow> int \<Rightarrow> int \<Rightarrow> coord" where
  "gm_point center gridSize pointDistance i j =
     (let offset = gridSize div 2 in
      \<lparr>lat = lat center + (of_int (i - offset) * pointDistance) / 69,
       lng = lng center
             + (of_int (j - offset) * pointDistance) / (69 * cos (lat center * (pi / 180)))\<rparr>)"

definition gm_points :: "coord \<Rightarrow> int \<Rightarrow> real \<Rightarrow> coord list" where
  "gm_points center gridSize pointDistance =
     concat (map (\<lambda>i. map (\<lambda>j. gm_point center gridSize pointDistance (int i) (int j))
                          (loop_range gridSize))
                 (loop_range gridSize))"

text \<open>
  The two terms that the loop adds to the centre, as the source writes them. At a centre
  latitude of exactly 90 or -90 the real cosine is 0, while the cosine of the nearest
  double is not; nothing below asserts a value of the longitude there.
\<close>

definition gm_lat_offset :: "int \<Rightarrow> real \<Rightarrow> int \<Rightarrow> real" where
  "gm_lat_offset gridSize pointDistance i =
     (let offset = gridSize div 2 in (of_int (i - offset) * pointDistance) / 69)"

definition gm_lng_offset :: "coord \<Rightarrow> int \<Rightarrow> real \<Rightarrow> int \<Rightarrow> real" where
  "gm_lng_offset center gridSize pointDistance j =
     (let offset = gridSize div 2 in
      (of_int (j - offset) * pointDistance) / (69 * cos (lat center * (pi / 180))))"

subsection \<open>\<open>DetailedGridView\<close>: kilometres, start corner plus steps\<close>

definition latKmRatio :: real where
  "latKmRatio = 1 / 110.574"

definition lngKmRatio :: "coord \<Rightarrow> real" where
  "lngKmRatio location = 1 / (111.32 * cos ((lat location * pi) / 180))"

definition startLat :: "coord \<Rightarrow> real \<Rightarrow> int \<Rightarrow> real" where
  "startLat location distance gridSize =
     lat location - (distance * latKmRatio * of_int (gridSize - 1)) / 2"

definition startLng :: "coord \<Rightarrow> real \<Rightarrow> int \<Rightarrow> real" where
  "startLng location distance gridSize =
     lng location - (distance * lngKmRatio location * of_int (gridSize - 1)) / 2"

text \<open>
  The same two lines give the coordinate of cell \<open>(i, j)\<close> in \<open>handleCSVDownload\<close> and in
  the marker loops of all three versions of the view.
\<close>

definition dgv_point :: "coord \<Rightarrow> real \<Rightarrow> int \<Rightarrow> int \<Rightarrow> int \<Rightarrow> coord" where
  "dgv_point location distance gridSize i j =
     \<lparr>lat = startLat location distance gridSize + of_int i * distance * latKmRatio,
      lng = startLng location distance gridSize + of_int j * distance * lngKmRatio location\<rparr>"

subsection \<open>The latitude line of \<open>DetailedGridView\<close> in double precision\<close>

text \<open>
  Rounding to the nearest double, ties to even: a number \<open>x\<close> with
  \<open>2^e \<le> |x| < 2^(e+1)\<close> is rounded to a multiple of \<open>2^(e-52)\<close>. This is the
  rounding of IEEE 754 binary64 for magnitudes between \<open>2^-1022\<close> and \<open>2^1024\<close>
  (no subnormal numbers, no overflow); every value it is applied to below lies between
  \<open>2^-7\<close> and \<open>2^7\<close>.
\<close>

definition round_even :: "real \<Rightarrow> int" where
  "round_even y =
     (let f = \<lfloor>y\<rfloor>; r = y - of_int f in
      if r < 1 / 2 then f else if r > 1 / 2 then f + 1 else if even f then f else f + 1)"

definition fl :: "real \<Rightarrow> real" where
  "fl x =
     (if x = 0 then 0
      else (let e = \<lfloor>log 2 \<bar>x\<bar>\<rfloor> - 52
            in of_int (round_even (x / 2 powr of_int e)) * 2 powr of_int e))"

text \<open>
  The latitude of row \<open>i\<close> as the source computes it, every literal and every operation
  rounded: \<open>latKmRatio = 1 / 110.574\<close>,
  \<open>startLat = location.lat - (distance * latKmRatio * (gridSize - 1)) / 2\<close> and
  \<open>lat = startLat + i * distance * latKmRatio\<close>. The centre latitude and the distance
  are doubles already; \<open>gridSize - 1\<close> and \<open>i\<close> are small integers.
\<close>

definition dgv_lat_double :: "real \<Rightarrow> real \<Rightarrow> int \<Rightarrow> int \<Rightarrow> real" where
  "dgv_lat_double location_lat distance gridSize i =
     (let latKmRatio = fl (1 / fl 110.574);
          startLat = fl (location_lat
                          - fl (fl (fl (distance * latKmRatio) * of_int (gridSize - 1)) / 2))
      in fl (startLat + fl (fl (of_int i * distance) * latKmRatio)))"

section \<open>Markers\<close>

datatype icon =
    SvgCircle string string
  | RankImage string
  | LabelledCircle string string

text \<open>
  A marker as the views create it: where it is, what is drawn, its z-index, and the rank
  it was created for (the value its click listener and title keep).
\<close>

record marker =
  position :: coord
  icon :: icon
  zIndex :: int
  marker_rank :: int

subsection \<open>\<open>GoogleMap.initializeMap\<close>\<close>

text \<open>
  The body of \<open>points.forEach((point, index) => \<dots>)\<close>. \<open>gridData[row]\<close> is a row when
  \<open>row\<close> is in range, and \<open>gridData[row][col]\<close> is defined when \<open>col\<close> is in range of it.
  The result pairs the marker with the index of the point it was created for.
\<close>

definition gm_marker_at :: "int list list \<Rightarrow> int \<Rightarrow> coord \<Rightarrow> nat \<Rightarrow> (nat \<times> marker) option" where
  "gm_marker_at gridData gridSize point index =
     (let row = nat (int index div gridSize); col = nat (int index mod gridSize) in
      if row < length gridData \<and> col < length (gridData ! row) then
        (let ranking = gridData ! row ! col in
         if ranking = 0 then None
         else Some (index,
                \<lparr>position = point,
                 icon = SvgCircle (gm_iconColor ranking) (gm_iconText ranking),
                 zIndex = gm_zIndex ranking,
                 marker_rank = ranking\<rparr>))
      else None)"

text \<open>\<open>gridData\<close> is an optional property: \<open>None\<close> is \<open>undefined\<close>.\<close>

definition gm_markers :: "int list list option \<Rightarrow> int \<Rightarrow> coord list \<Rightarrow> (nat \<times> marker) list" where
  "gm_markers gridData gridSize points =
     (case gridData of
        None \<Rightarrow> []
      | Some g \<Rightarrow>
          if length g > 0
          then List.map_filter (\<lambda>(index, point). gm_marker_at g gridSize point index)
                 (enumerate 0 points)
          else [])"

text \<open>
  \<open>initializeMap\<close> runs inside \<open>try\<close>: a rejected \<open>loadGoogleMapsApi()\<close> is caught and
  reported through \<open>setError\<close>; nothing on the grid path throws.
\<close>

datatype load_result = Loaded | LoadFailed string

definition initializeMap ::
  "load_result \<Rightarrow> coord \<Rightarrow> int \<Rightarrow> real \<Rightarrow> int list list option
     \<Rightarrow> string + (coord list \<times> (nat \<times> marker) list)" where
  "initializeMap api center gridSize pointDistance gridData =
     (case api of
        LoadFailed msg \<Rightarrow> Inl (''Failed to initialize map: '' @ msg)
      | Loaded \<Rightarrow>
          (let points = gm_points center gridSize pointDistance
           in Inr (points, gm_markers gridData gridSize points)))"

subsection \<open>\<open>DetailedGridView\<close>\<close>

text \<open>\<open>Array.isArray(gridResult.gridData) ? gridResult.gridData : []\<close>.\<close>

definition dgv_gridData :: "int list list option \<Rightarrow> int list list" where
  "dgv_gridData raw = (case raw of Some g \<Rightarrow> g | None \<Rightarrow> [])"

definition rank_icon_url :: "int \<Rightarrow> string" where
  "rank_icon_url ranking =
     (if ranking \<le> 20 then ''/images/rank-icons/'' @ toString_js ranking @ ''.png''
      else ''/images/rank-icons/X.png'')"

text \<open>What each version of the view draws for a rank at cell \<open>(i, j)\<close>, and its z-index.\<close>

definition dgv_style_icon :: "int \<Rightarrow> nat \<Rightarrow> nat \<Rightarrow> int \<Rightarrow> icon \<times> int" where
  "dgv_style_icon gridSize i j ranking = (RankImage (rank_icon_url ranking), dgv_zIndex_icon ranking)"

definition dgv_style_label :: "int \<Rightarrow> nat \<Rightarrow> nat \<Rightarrow> int \<Rightarrow> icon \<times> int" where
  "dgv_style_label gridSize i j ranking =
     (LabelledCircle (getRankingColor ranking) (formatRankingLabel ranking),
      dgv_zIndex_label ranking)"

definition dgv_style_cell :: "int \<Rightarrow> nat \<Rightarrow> nat \<Rightarrow> int \<Rightarrow> icon \<times> int" where
  "dgv_style_cell gridSize i j ranking =
     (RankImage (rank_icon_url ranking), dgv_zIndex_cell gridSize (int i) (int j))"

text \<open>
  The body of the marker loop: \<open>continue\<close> when the entry is not there, \<open>continue\<close> when
  it is \<open>0\<close>, a marker otherwise. The result pairs the marker with its cell.
\<close>

definition dgv_marker_at ::
  "(int \<Rightarrow> nat \<Rightarrow> nat \<Rightarrow> int \<Rightarrow> icon \<times> int) \<Rightarrow> coord \<Rightarrow> real \<Rightarrow> int \<Rightarrow> int list list
     \<Rightarrow> nat \<Rightarrow> nat \<Rightarrow> ((nat \<times> nat) \<times> marker) option" where
  "dgv_marker_at style location distance gridSize gridData i j =
     (if \<not> (i < length gridData \<and> j < length (gridData ! i)) then None
      else
        (let ranking = gridData ! i ! j in
         if ranking = 0 then None
         else Some ((i, j),
                \<lparr>position = dgv_point location distance gridSize (int i) (int j),
                 icon = fst (style gridSize i j ranking),
                 zIndex = snd (style gridSize i j ranking),
                 marker_rank = ranking\<rparr>)))"

definition dgv_markers ::
  "(int \<Rightarrow> nat \<Rightarrow> nat \<Rightarrow> int \<Rightarrow> icon \<times> int) \<Rightarrow> coord \<Rightarrow> real \<Rightarrow> int \<Rightarrow> int list list option
     \<Rightarrow> ((nat \<times> nat) \<times> marker) list" where
  "dgv_markers style location distance gridSize raw =
     concat (map (\<lambda>i. List.map_filter
                         (dgv_marker_at style location distance gridSize (dgv_gridData raw) i)
                         (loop_range gridSize))
                 (loop_range gridSize))"

section \<open>CSV export\<close>

text \<open>
  \<open>toFixed(6)\<close> is the language's number formatting and is a parameter. The lines before
  the column header and the metrics block after the rows are built from the business name,
  the date and the metrics, and are parameters too.
\<close>

definition csv_line ::
  "(real \<Rightarrow> string) \<Rightarrow> coord \<Rightarrow> real \<Rightarrow> int \<Rightarrow> nat \<Rightarrow> nat \<Rightarrow> int \<Rightarrow> string" where
  "csv_line toFixed6 location distance gridSize rowIndex colIndex ranking =
     (let p = dgv_point location distance gridSize (int rowIndex) (int colIndex) in
      toString_js (int rowIndex + 1) @ '','' @ toString_js (int colIndex + 1) @ '',''
      @ toFixed6 (lat p) @ '','' @ toFixed6 (lng p) @ '','' @ toString_js ranking
      @ [CHR 0x0A])"

definition csv_data_rows ::
  "(real \<Rightarrow> string) \<Rightarrow> coord \<Rightarrow> real \<Rightarrow> int \<Rightarrow> int list list \<Rightarrow> string list" where
  "csv_data_rows toFixed6 location distance gridSize gridData =
     concat (map (\<lambda>(rowIndex, row).
                    map (\<lambda>(colIndex, ranking).
                           csv_line toFixed6 location distance gridSize rowIndex colIndex ranking)
                        (enumerate 0 row))
                 (enumerate 0 gridData))"

definition handleCSVDownload ::
  "string \<Rightarrow> string \<Rightarrow> (real \<Rightarrow> string) \<Rightarrow> coord \<Rightarrow> real \<Rightarrow> int \<Rightarrow> int list list \<Rightarrow> string" where
  "handleCSVDownload preamble metrics toFixed6 location distance gridSize gridData =
     preamble @ ''Row,Column,Latitude,Longitude,Ranking'' @ [CHR 0x0A]
     @ concat (csv_data_rows toFixed6 location distance gridSize gridData)
     @ metrics"

section \<open>Distance between a grid point and a competitor\<close>

text \<open>\<open>Math.atan2(y, x)\<close> on finite arguments.\<close>

definition atan2 :: "real \<Rightarrow> real \<Rightarrow> real" where
  "atan2 y x =
     (if x > 0 then arctan (y / x)
      else if x < 0 then (if y \<ge> 0 then arctan (y / x) + pi else arctan (y / x) - pi)
      else if y > 0 then pi / 2
      else if y < 0 then - (pi / 2)
      else 0)"

definition haversine :: "coord \<Rightarrow> coord \<Rightarrow> real" where
  "haversine gridPoint competitor =
     (let R = 6371;
          dLat = ((lat competitor - lat gridPoint) * pi) / 180;
          dLon = ((lng competitor - lng gridPoint) * pi) / 180;
          a = sin (dLat / 2) * sin (dLat / 2)
              + cos ((lat gridPoint * pi) / 180) * cos ((lat competitor * pi) / 180)
                * sin (dLon / 2) * sin (dLon / 2);
          c = 2 * atan2 (sqrt a) (sqrt (1 - a))
      in R * c)"

section \<open>Defaults of \<open>DetailedGridView\<close>\<close>

text \<open>
  \<open>gridResult.businessInfo?.location?.lat\<close>: \<open>undefined\<close> when the business info or its
  location is missing (\<open>None\<close>), the property otherwise.
\<close>

record js_location =
  raw_lat :: jsval
  raw_lng :: jsval

definition opt_chain :: "js_location option \<Rightarrow> (js_location \<Rightarrow> jsval) \<Rightarrow> jsval" where
  "opt_chain loc field = (case loc of None \<Rightarrow> JUndefined | Some l \<Rightarrow> field l)"

definition dgv_gridSize :: "(string \<Rightarrow> jsnum) \<Rightarrow> jsval \<Rightarrow> jsnum" where
  "dgv_gridSize parse raw = js_or (Number_js parse raw) (Num 13)"

definition dgv_distance :: "(string \<Rightarrow> jsnum) \<Rightarrow> jsval \<Rightarrow> jsnum" where
  "dgv_distance parse raw = js_or (Number_js parse raw) (Num 2.5)"

definition dgv_location_lat :: "(string \<Rightarrow> jsnum) \<Rightarrow> js_location option \<Rightarrow> jsnum" where
  "dgv_location_lat parse loc = js_or (Number_js parse (opt_chain loc raw_lat)) (Num 0)"

definition dgv_location_lng :: "(string \<Rightarrow> jsnum) \<Rightarrow> js_location option \<Rightarrow> jsnum" where
  "dgv_location_lng parse loc = js_or (Number_js parse (opt_chain loc raw_lng)) (Num 0)"

subsection \<open>Grid size and distance in \<open>handleCSVDownload\<close>, first and second version\<close>

text \<open>
  The first two versions of the view read \<open>gridResult.gridSize || 13\<close> and
  \<open>gridResult.distanceKm || 2.5\<close> again in \<open>handleCSVDownload\<close>, without \<open>Number()\<close>;
  the third version converts there too and is \<open>dgv_gridSize\<close> and \<open>dgv_distance\<close>.
  A value is truthy unless it is \<open>undefined\<close>, \<open>null\<close>, \<open>NaN\<close>, 0 or the empty
  string, and \<open>v || d\<close> is \<open>v\<close> itself when \<open>v\<close> is truthy.
\<close>

definition truthy :: "jsval \<Rightarrow> bool" where
  "truthy v =
     (case v of JUndefined \<Rightarrow> False | JNull \<Rightarrow> False | JNumber x \<Rightarrow> \<not> falsy x
      | JString s \<Rightarrow> s \<noteq> [])"

definition jsval_or :: "jsval \<Rightarrow> jsval \<Rightarrow> jsval" where
  "jsval_or v d = (if truthy v then v else d)"

text \<open>
  \<open>-\<close>, \<open>*\<close>, \<open>/\<close> and the \<open>+\<close> of two numbers give \<open>NaN\<close> when an operand is
  \<open>NaN\<close>. (The only divisor it is used with is the constant 2.)
\<close>

definition js_arith :: "(real \<Rightarrow> real \<Rightarrow> real) \<Rightarrow> jsnum \<Rightarrow> jsnum \<Rightarrow> jsnum" where
  "js_arith f x y =
     (case x of NaN \<Rightarrow> NaN | Num a \<Rightarrow> (case y of NaN \<Rightarrow> NaN | Num b \<Rightarrow> Num (f a b)))"

text \<open>
  The latitude that these two versions write for row \<open>rowIndex\<close>. The arithmetic
  operators convert \<open>gridSize\<close> and \<open>distance\<close> to numbers where they are used;
  \<open>location.lat\<close> is the number of the view's own defaults.
\<close>

definition csv_lat_unconverted ::
  "(string \<Rightarrow> jsnum) \<Rightarrow> real \<Rightarrow> jsval \<Rightarrow> jsval \<Rightarrow> nat \<Rightarrow> jsnum" where
  "csv_lat_unconverted parse location_lat rawGridSize rawDistance rowIndex =
     (let gridSize = jsval_or rawGridSize (JNumber (Num 13));
          distance = jsval_or rawDistance (JNumber (Num 2.5));
          startLat =
            js_arith (-) (Num location_lat)
              (js_arith (/)
                 (js_arith (*) (js_arith (*) (Number_js parse distance) (Num latKmRatio))
                    (js_arith (-) (Number_js parse gridSize) (Num 1)))
                 (Num 2))
      in js_arith (+) startLat
           (js_arith (*) (js_arith (*) (Num (real rowIndex)) (Number_js parse distance))
              (Num latKmRatio)))"

section \<open>Auxiliary facts\<close>

subsection \<open>Lists\<close>

lemma in_set_map_filter:
  "y \<in> set (List.map_filter f xs) \<longleftrightarrow> (\<exists>x. x \<in> set xs \<and> f x = Some y)"
  by (induction xs) (auto split: option.splits)

lemma enumerate_nth: "enumerate 0 xs = map (\<lambda>k. (k, xs ! k)) [0..<length xs]"
proof -
  have "enumerate 0 xs = enumerate 0 (map (\<lambda>k. xs ! k) [0..<length xs])"
    by (simp add: map_nth)
  then show ?thesis by (simp only: enumerate_map_upt)
qed

text \<open>Two nested counting loops fill a list in row-major order.\<close>

lemma concat_map_upt_row_major:
  "concat (map (\<lambda>i. map (f i) [0..<n]) [0..<m]) = map (\<lambda>k. f (k div n) (k mod n)) [0..<m * n]"
proof (induction m)
  case 0
  show ?case by simp
next
  case (Suc m)
  have "map (\<lambda>k. f (k div n) (k mod n)) [m * n..<m * n + n]
          = map (\<lambda>k. f (k div n) (k mod n)) (map (\<lambda>t. t + m * n) [0..<n])"
    by (simp only: map_add_upt add.commute)
  also have "\<dots> = map (f m) [0..<n]"
    by (auto simp: comp_def)
  finally have last_row:
    "map (\<lambda>k. f (k div n) (k mod n)) [m * n..<m * n + n] = map (f m) [0..<n]" .
  have "[0..<Suc m * n] = [0..<m * n] @ [m * n..<m * n + n]"
    using upt_add_eq_append [of 0 "m * n" n] by (simp add: add.commute)
  then show ?case
    using Suc.IH last_row by simp
qed

lemma cell_index:
  assumes "int i < n" "int j < n"
  shows "i * nat n + j < nat n * nat n"
    and "(i * nat n + j) div nat n = i"
    and "(i * nat n + j) mod nat n = j"
proof -
  from assms have i: "i < nat n" and j: "j < nat n" by linarith+
  have "i * nat n + j < i * nat n + nat n" using j by simp
  also have "\<dots> = Suc i * nat n" by simp
  also have "\<dots> \<le> nat n * nat n" using i by (metis Suc_leI mult_le_mono1)
  finally show "i * nat n + j < nat n * nat n" .
  show "(i * nat n + j) div nat n = i" using j by simp
  show "(i * nat n + j) mod nat n = j" using j by simp
qed

subsection \<open>Points of \<open>GoogleMap.initializeMap\<close>\<close>

lemma gm_points_row_major:
  "gm_points center gridSize pointDistance
     = map (\<lambda>k. gm_point center gridSize pointDistance
                  (int (k div nat gridSize)) (int (k mod nat gridSize)))
         [0..<nat gridSize * nat gridSize]"
  unfolding gm_points_def loop_range_def
  by (rule concat_map_upt_row_major)

lemma length_gm_points:
  "length (gm_points center gridSize pointDistance) = nat gridSize * nat gridSize"
  by (simp add: gm_points_row_major)

lemma gm_points_nth:
  assumes "int i < n" "int j < n"
  shows "gm_points c n d ! (i * nat n + j) = gm_point c n d (int i) (int j)"
  using cell_index [OF assms] by (simp add: gm_points_row_major)

lemma gm_point_offsets:
  "gm_point c n s i j = \<lparr>lat = lat c + gm_lat_offset n s i, lng = lng c + gm_lng_offset c n s j\<rparr>"
  by (simp add: gm_point_def gm_lat_offset_def gm_lng_offset_def Let_def)

subsection \<open>Points of \<open>DetailedGridView\<close>\<close>

text \<open>
  The start corner is \<open>(gridSize - 1) / 2\<close> steps from the centre, which is
  \<open>floor(gridSize / 2)\<close> steps exactly when the grid size is odd. In exact arithmetic the
  start-corner form is then the centre-plus-offset form; in double precision the two
  differ by rounding (next subsection).
\<close>

lemma dgv_point_odd:
  assumes "odd n"
  shows "dgv_point c s n i j
           = \<lparr>lat = lat c + of_int (i - n div 2) * s / 110.574,
              lng = lng c + of_int (j - n div 2) * s / (111.32 * cos (lat c * pi / 180))\<rparr>"
proof -
  from assms obtain k where n: "n = 2 * k + 1" by (elim oddE)
  have half: "n div 2 = k" unfolding n by simp
  have n1: "(of_int (n - 1) :: real) = 2 * of_int k" unfolding n by simp
  show ?thesis
    unfolding dgv_point_def startLat_def startLng_def latKmRatio_def lngKmRatio_def half n1
    by (simp add: algebra_simps diff_divide_distrib)
qed

text \<open>Away from the poles the divisor of the longitude step is positive.\<close>

subsection \<open>Double precision\<close>

text \<open>\<open>fl\<close> on a number below \<open>2^53\<close>, from the power of two that scales it to 53 bits.\<close>

lemma fl_scaled:
  fixes m :: nat
  assumes "2 ^ 52 \<le> \<bar>x\<bar> * 2 ^ m" "\<bar>x\<bar> * 2 ^ m < 2 ^ 53"
  shows "fl x = of_int (round_even (x * 2 ^ m)) / 2 ^ m"
proof -
  have x0: "x \<noteq> 0" using assms(1) by auto
  have p: "2 powr (of_int (52 - int m)) = (2 ^ 52 / 2 ^ m :: real)"
    by (simp add: powr_diff powr_realpow)
  have p1: "2 powr (of_int (52 - int m + 1)) = (2 ^ 53 / 2 ^ m :: real)"
    by (simp add: powr_diff powr_add powr_realpow)
  have "\<lfloor>log 2 \<bar>x\<bar>\<rfloor> = 52 - int m"
  proof (subst floor_log_eq_powr_iff)
    show "0 < \<bar>x\<bar>" using x0 by simp
    show "(1::real) < 2" by simp
    show "2 powr (of_int (52 - int m)) \<le> \<bar>x\<bar> \<and> \<bar>x\<bar> < 2 powr (of_int (52 - int m + 1))"
      unfolding p p1 using assms by (simp add: field_simps)
  qed
  then have e: "\<lfloor>log 2 \<bar>x\<bar>\<rfloor> - 52 = - int m" by simp
  have q: "2 powr (of_int (- int m)) = (1 / 2 ^ m :: real)"
    by (simp add: powr_minus powr_realpow inverse_eq_divide)
  show ?thesis
    unfolding fl_def Let_def e q using x0 by simp
qed

text \<open>
  The grid of size 13 and spacing 2.5 around latitude 40: the ratio is the double
  \<open>0.009043717329571148\<close> and the start latitude the double \<open>39.86434424005643\<close>.
\<close>

lemma dgv_start_double:
  "fl (40 - fl (fl (fl (2.5 * fl (1 / fl 110.574)) * of_int (13 - 1)) / 2))
     = 5610407683277729 / 2 ^ 47"
  and dgv_ratio_double: "fl (1 / fl 110.574) = 5213348095424092 / 2 ^ 59"
proof -
  have c: "fl 110.574 = 7780953518701019 / 2 ^ 46"
    by (subst fl_scaled [where m = 46]) (simp_all add: round_even_def)
  show r: "fl (1 / fl 110.574) = 5213348095424092 / 2 ^ 59"
    unfolding c by (subst fl_scaled [where m = 59]) (simp_all add: round_even_def)
  have t1: "fl (2.5 * fl (1 / fl 110.574)) = 6516685119280115 / 2 ^ 58"
    unfolding r by (subst fl_scaled [where m = 58]) (simp_all add: round_even_def)
  have t2: "fl (fl (2.5 * fl (1 / fl 110.574)) * of_int (13 - 1)) = 4887513839460086 / 2 ^ 54"
    unfolding t1 by (subst fl_scaled [where m = 54]) (simp_all add: round_even_def)
  have t3: "fl (fl (fl (2.5 * fl (1 / fl 110.574)) * of_int (13 - 1)) / 2)
              = 4887513839460086 / 2 ^ 55"
    unfolding t2 by (subst fl_scaled [where m = 55]) (simp_all add: round_even_def)
  show "fl (40 - fl (fl (fl (2.5 * fl (1 / fl 110.574)) * of_int (13 - 1)) / 2))
          = 5610407683277729 / 2 ^ 47"
    unfolding t3 by (subst fl_scaled [where m = 47]) (simp_all add: round_even_def)
qed

text \<open>Row 1 is the double \<open>39.88695353338036\<close>.\<close>

lemma dgv_lat_double_row1: "dgv_lat_double 40 2.5 13 1 = 5613589658433627 / 2 ^ 47"
proof -
  have u1: "fl (of_int 1 * 2.5) = 5629499534213120 / 2 ^ 51"
    by (subst fl_scaled [where m = 51]) (simp_all add: round_even_def)
  have u2: "fl (fl (of_int 1 * 2.5) * (5213348095424092 / 2 ^ 59)) = 6516685119280115 / 2 ^ 58"
    unfolding u1 by (subst fl_scaled [where m = 58]) (simp_all add: round_even_def)
  have "fl (5610407683277729 / 2 ^ 47 + fl (fl (of_int 1 * 2.5) * (5213348095424092 / 2 ^ 59)))
          = 5613589658433627 / 2 ^ 47"
    unfolding u2 by (subst fl_scaled [where m = 47]) (simp_all add: round_even_def)
  then show ?thesis
    unfolding dgv_lat_double_def Let_def
    unfolding dgv_start_double
    unfolding dgv_ratio_double .
qed

text \<open>
  The centre-plus-offset form \<open>40 + ((1 - 6) * 2.5) / 110.574\<close> in double precision is
  \<open>39.886953533380364\<close>, one unit in the last place above what the view computes for
  row 1.
\<close>

lemma centre_plus_offset_double_row1:
  "fl (40 + fl (fl (of_int (1 - 13 div 2) * 2.5) / fl 110.574)) = 5613589658433628 / 2 ^ 47"
proof -
  have c: "fl 110.574 = 7780953518701019 / 2 ^ 46"
    by (subst fl_scaled [where m = 46]) (simp_all add: round_even_def)
  have v1: "fl (of_int (1 - 13 div 2) * 2.5) = - 7036874417766400 / 2 ^ 49"
    by (subst fl_scaled [where m = 49]) (simp_all add: round_even_def)
  have v2: "fl (fl (of_int (1 - 13 div 2) * 2.5) / fl 110.574) = - 8145856399100143 / 2 ^ 56"
    unfolding v1 c by (subst fl_scaled [where m = 56]) (simp_all add: round_even_def)
  show ?thesis
    unfolding v2 by (subst fl_scaled [where m = 47]) (simp_all add: round_even_def)
qed

text \<open>Rows 5 and 7 are the doubles \<open>39.97739070667607\<close> and \<open>40.022609293323924\<close>.\<close>

lemma dgv_lat_double_row5: "dgv_lat_double 40 2.5 13 5 = 5626317559057221 / 2 ^ 47"
proof -
  have u1: "fl (of_int 5 * 2.5) = 7036874417766400 / 2 ^ 49"
    by (subst fl_scaled [where m = 49]) (simp_all add: round_even_def)
  have u2: "fl (fl (of_int 5 * 2.5) * (5213348095424092 / 2 ^ 59)) = 8145856399100144 / 2 ^ 56"
    unfolding u1 by (subst fl_scaled [where m = 56]) (simp_all add: round_even_def)
  have "fl (5610407683277729 / 2 ^ 47 + fl (fl (of_int 5 * 2.5) * (5213348095424092 / 2 ^ 59)))
          = 5626317559057221 / 2 ^ 47"
    unfolding u2 by (subst fl_scaled [where m = 47]) (simp_all add: round_even_def)
  then show ?thesis
    unfolding dgv_lat_double_def Let_def
    unfolding dgv_start_double
    unfolding dgv_ratio_double .
qed

lemma dgv_lat_double_row7: "dgv_lat_double 40 2.5 13 7 = 5632681509369018 / 2 ^ 47"
proof -
  have u1: "fl (of_int 7 * 2.5) = 4925812092436480 / 2 ^ 48"
    by (subst fl_scaled [where m = 48]) (simp_all add: round_even_def)
  have u2: "fl (fl (of_int 7 * 2.5) * (5213348095424092 / 2 ^ 59)) = 5702099479370101 / 2 ^ 55"
    unfolding u1 by (subst fl_scaled [where m = 55]) (simp_all add: round_even_def)
  have "fl (5610407683277729 / 2 ^ 47 + fl (fl (of_int 7 * 2.5) * (5213348095424092 / 2 ^ 59)))
          = 5632681509369018 / 2 ^ 47"
    unfolding u2 by (subst fl_scaled [where m = 47]) (simp_all add: round_even_def)
  then show ?thesis
    unfolding dgv_lat_double_def Let_def
    unfolding dgv_start_double
    unfolding dgv_ratio_double .
qed

subsection \<open>Markers\<close>

lemma gm_marker_at_index: "gm_marker_at g n p idx = Some (k, m) \<Longrightarrow> k = idx"
  by (auto simp: gm_marker_at_def Let_def split: if_splits)

lemma gm_marker_at_cell:
  assumes "int i < n" "int j < n"
  shows "gm_marker_at g n p (i * nat n + j) = Some (k, m)
         \<longleftrightarrow> k = i * nat n + j \<and> i < length g \<and> j < length (g ! i) \<and> g ! i ! j \<noteq> 0
             \<and> m = \<lparr>position = p,
                     icon = SvgCircle (gm_iconColor (g ! i ! j)) (gm_iconText (g ! i ! j)),
                     zIndex = gm_zIndex (g ! i ! j), marker_rank = g ! i ! j\<rparr>"
proof -
  have n: "n = int (nat n)" using assms by simp
  have "int (i * nat n + j) div n = int ((i * nat n + j) div nat n)"
    by (subst n) (simp only: zdiv_int)
  moreover have "int (i * nat n + j) mod n = int ((i * nat n + j) mod nat n)"
    by (subst n) (simp only: zmod_int)
  ultimately have rc: "nat (int (i * nat n + j) div n) = i" "nat (int (i * nat n + j) mod n) = j"
    using cell_index [OF assms] by simp_all
  show ?thesis
    unfolding gm_marker_at_def Let_def rc by auto
qed

lemma gm_markers_cell_marker:
  assumes "int i < n" "int j < n"
  shows "((i * nat n + j, m) \<in> set (gm_markers gd n (gm_points c n d)))
           \<longleftrightarrow> (\<exists>g. gd = Some g \<and> i < length g \<and> j < length (g ! i) \<and> g ! i ! j \<noteq> 0
                 \<and> m = \<lparr>position = gm_point c n d (int i) (int j),
                         icon = SvgCircle (gm_iconColor (g ! i ! j)) (gm_iconText (g ! i ! j)),
                         zIndex = gm_zIndex (g ! i ! j), marker_rank = g ! i ! j\<rparr>)"
proof (cases gd)
  case None
  then show ?thesis by (simp add: gm_markers_def)
next
  case (Some g)
  let ?k = "i * nat n + j"
  let ?pts = "gm_points c n d"
  let ?body = "\<lambda>(index, point). gm_marker_at g n point index"
  have len: "?k < length ?pts"
    using cell_index(1) [OF assms] by (simp add: length_gm_points)
  have pt: "?pts ! ?k = gm_point c n d (int i) (int j)"
    by (rule gm_points_nth [OF assms])
  have "((?k, m) \<in> set (List.map_filter ?body (enumerate 0 ?pts)))
          \<longleftrightarrow> gm_marker_at g n (?pts ! ?k) ?k = Some (?k, m)"
    (is "?L \<longleftrightarrow> ?R")
  proof
    assume ?L
    then obtain idx p where "(idx, p) \<in> set (enumerate 0 ?pts)"
      and s: "gm_marker_at g n p idx = Some (?k, m)"
      by (auto simp: in_set_map_filter)
    then have "p = ?pts ! idx" by (simp add: in_set_enumerate_eq)
    moreover have "idx = ?k" using gm_marker_at_index [OF s] by simp
    ultimately show ?R using s by simp
  next
    assume s: ?R
    have "(?k, ?pts ! ?k) \<in> set (enumerate 0 ?pts)"
      using len by (simp add: in_set_enumerate_eq)
    then show ?L
      using s by (auto simp: in_set_map_filter)
  qed
  also have "\<dots> \<longleftrightarrow> i < length g \<and> j < length (g ! i) \<and> g ! i ! j \<noteq> 0
                 \<and> m = \<lparr>position = gm_point c n d (int i) (int j),
                         icon = SvgCircle (gm_iconColor (g ! i ! j)) (gm_iconText (g ! i ! j)),
                         zIndex = gm_zIndex (g ! i ! j), marker_rank = g ! i ! j\<rparr>"
    unfolding pt using gm_marker_at_cell [OF assms, of g _ ?k m] by simp
  finally show ?thesis
    using Some by (auto simp: gm_markers_def)
qed

lemma dgv_marker_at_cell:
  "dgv_marker_at style loc d n g i' j' = Some ((i, j), m)
     \<longleftrightarrow> i' = i \<and> j' = j \<and> i < length g \<and> j < length (g ! i) \<and> g ! i ! j \<noteq> 0
         \<and> m = \<lparr>position = dgv_point loc d n (int i) (int j),
                 icon = fst (style n i j (g ! i ! j)),
                 zIndex = snd (style n i j (g ! i ! j)), marker_rank = g ! i ! j\<rparr>"
  by (auto simp: dgv_marker_at_def Let_def)

lemma dgv_markers_cell_marker:
  assumes "int i < n" "int j < n"
  shows "(((i, j), m) \<in> set (dgv_markers style loc d n raw))
           \<longleftrightarrow> (\<exists>g. raw = Some g \<and> i < length g \<and> j < length (g ! i) \<and> g ! i ! j \<noteq> 0
                 \<and> m = \<lparr>position = dgv_point loc d n (int i) (int j),
                         icon = fst (style n i j (g ! i ! j)),
                         zIndex = snd (style n i j (g ! i ! j)), marker_rank = g ! i ! j\<rparr>)"
proof -
  from assms have ij: "i < nat n" "j < nat n" by linarith+
  have "(((i, j), m) \<in> set (dgv_markers style loc d n raw))
          \<longleftrightarrow> (\<exists>i' j'. i' < nat n \<and> j' < nat n
                 \<and> dgv_marker_at style loc d n (dgv_gridData raw) i' j' = Some ((i, j), m))"
    by (force simp: dgv_markers_def loop_range_def in_set_map_filter)
  also have "\<dots> \<longleftrightarrow> i < length (dgv_gridData raw) \<and> j < length (dgv_gridData raw ! i)
                     \<and> dgv_gridData raw ! i ! j \<noteq> 0
                 \<and> m = \<lparr>position = dgv_point loc d n (int i) (int j),
                         icon = fst (style n i j (dgv_gridData raw ! i ! j)),
                         zIndex = snd (style n i j (dgv_gridData raw ! i ! j)),
                         marker_rank = dgv_gridData raw ! i ! j\<rparr>"
    unfolding dgv_marker_at_cell using ij by auto
  also have "\<dots> \<longleftrightarrow> (\<exists>g. raw = Some g \<and> i < length g \<and> j < length (g ! i) \<and> g ! i ! j \<noteq> 0
                 \<and> m = \<lparr>position = dgv_point loc d n (int i) (int j),
                         icon = fst (style n i j (g ! i ! j)),
                         zIndex = snd (style n i j (g ! i ! j)), marker_rank = g ! i ! j\<rparr>)"
    by (cases raw) (simp_all add: dgv_gridData_def)
  finally show ?thesis .
qed

text \<open>No point index and no cell has two markers.\<close>

lemma distinct_map_filter_fst:
  assumes "\<And>x y. x \<in> set xs \<Longrightarrow> f x = Some y \<Longrightarrow> fst y = key x" "distinct (map key xs)"
  shows "distinct (map fst (List.map_filter f xs))"
  using assms
proof (induction xs)
  case Nil
  show ?case by simp
next
  case (Cons x xs)
  have keys: "fst y \<in> key ` set xs" if "y \<in> set (List.map_filter f xs)" for y
  proof -
    from that obtain x' where x': "x' \<in> set xs" "f x' = Some y"
      by (auto simp: in_set_map_filter)
    then have "fst y = key x'" using Cons.prems(1) [of x' y] by simp
    then show ?thesis using x' by simp
  qed
  have ih: "distinct (map fst (List.map_filter f xs))"
    using Cons by simp
  show ?case
  proof (cases "f x")
    case None
    then show ?thesis using ih by simp
  next
    case (Some y)
    then have "fst y = key x" using Cons.prems(1) by simp
    moreover have "key x \<notin> key ` set xs" using Cons.prems(2) by simp
    ultimately have "fst y \<notin> fst ` set (List.map_filter f xs)" using keys by auto
    then show ?thesis using Some ih by simp
  qed
qed

lemma distinct_gm_markers: "distinct (map fst (gm_markers gd n pts))"
proof (cases gd)
  case None
  then show ?thesis by (simp add: gm_markers_def)
next
  case (Some g)
  have "distinct (map fst (List.map_filter (\<lambda>(index, point). gm_marker_at g n point index)
                             (enumerate 0 pts)))"
    by (rule distinct_map_filter_fst [where key = fst])
       (auto dest: gm_marker_at_index)
  then show ?thesis using Some by (simp add: gm_markers_def)
qed

lemma concat_map_filter_product:
  "concat (map (\<lambda>i. List.map_filter (f i) ys) xs)
     = List.map_filter (\<lambda>(i, j). f i j) (List.product xs ys)"
proof (induction xs)
  case Nil
  show ?case by simp
next
  case (Cons x xs)
  have "List.map_filter (\<lambda>(i, j). f i j) (map (Pair x) ys) = List.map_filter (f x) ys"
    by (induction ys) (simp_all split: option.splits)
  then show ?case
    using Cons by (simp add: List.map_filter_def)
qed

lemma distinct_dgv_markers: "distinct (map fst (dgv_markers style loc d n raw))"
  unfolding dgv_markers_def concat_map_filter_product
  by (rule distinct_map_filter_fst [where key = "\<lambda>x. x"])
     (auto simp: dgv_marker_at_cell distinct_product loop_range_def)

subsection \<open>CSV rows\<close>

lemma csv_data_rows_cells:
  "csv_data_rows fmt loc d n g
     = concat (map (\<lambda>i. map (\<lambda>j. csv_line fmt loc d n i j (g ! i ! j)) [0..<length (g ! i)])
                   [0..<length g])"
  unfolding csv_data_rows_def
  by (subst enumerate_nth [of g]) (simp add: comp_def enumerate_nth)

lemma length_csv_data_rows: "length (csv_data_rows fmt loc d n g) = sum_list (map length g)"
proof -
  have "map length g = map length (map (\<lambda>i. g ! i) [0..<length g])"
    by (simp only: map_nth)
  also have "\<dots> = map (\<lambda>i. length (g ! i)) [0..<length g]"
    by (simp only: map_map comp_def)
  finally have rows: "map (\<lambda>i. length (g ! i)) [0..<length g] = map length g" by simp
  have "length (csv_data_rows fmt loc d n g)
          = sum_list (map (\<lambda>i. length (g ! i)) [0..<length g])"
    by (simp add: csv_data_rows_cells length_concat comp_def)
  then show ?thesis by (simp only: rows)
qed

subsection \<open>The haversine term stays in the unit interval\<close>

text \<open>
  So both square roots of \<open>haversine\<close> are taken of non-negative numbers, for all
  coordinates.
\<close>

lemma sin_half_sq: "sin (x / 2) * sin (x / 2) = (1 - cos x) / 2" for x :: real
  using sin_times_sin [of "x / 2" "x / 2"] by simp

lemma unit_vectors_dot:
  fixes s1 s2 c1 c2 cd :: real
  assumes "s1\<^sup>2 + c1\<^sup>2 = 1" "s2\<^sup>2 + c2\<^sup>2 = 1" "- 1 \<le> cd" "cd \<le> 1"
  shows "\<bar>s1 * s2 + c1 * c2 * cd\<bar> \<le> 1"
proof -
  have "\<bar>s1 * s2 + c1 * c2 * cd\<bar> \<le> \<bar>s1 * s2\<bar> + \<bar>c1 * c2 * cd\<bar>" by (rule abs_triangle_ineq)
  also have "\<bar>c1 * c2 * cd\<bar> = \<bar>c1 * c2\<bar> * \<bar>cd\<bar>" by (simp add: abs_mult)
  also have "\<bar>c1 * c2\<bar> * \<bar>cd\<bar> \<le> \<bar>c1 * c2\<bar> * 1"
    using assms by (intro mult_left_mono) auto
  finally have a: "\<bar>s1 * s2 + c1 * c2 * cd\<bar> \<le> \<bar>s1 * s2\<bar> + \<bar>c1 * c2\<bar>" by simp
  have "0 \<le> (\<bar>s1\<bar> - \<bar>s2\<bar>)\<^sup>2" "0 \<le> (\<bar>c1\<bar> - \<bar>c2\<bar>)\<^sup>2" by simp_all
  then have "2 * (\<bar>s1\<bar> * \<bar>s2\<bar>) \<le> s1\<^sup>2 + s2\<^sup>2" "2 * (\<bar>c1\<bar> * \<bar>c2\<bar>) \<le> c1\<^sup>2 + c2\<^sup>2"
    by (simp_all add: power2_diff)
  then have "2 * (\<bar>s1 * s2\<bar> + \<bar>c1 * c2\<bar>) \<le> 2" using assms by (simp add: abs_mult)
  with a show ?thesis by simp
qed

lemma haversine_term_bounds:
  fixes p q :: coord
  shows "0 \<le> sin ((((lat q - lat p) * pi) / 180) / 2) * sin ((((lat q - lat p) * pi) / 180) / 2)
              + cos ((lat p * pi) / 180) * cos ((lat q * pi) / 180)
                * sin ((((lng q - lng p) * pi) / 180) / 2) * sin ((((lng q - lng p) * pi) / 180) / 2)
       \<and> sin ((((lat q - lat p) * pi) / 180) / 2) * sin ((((lat q - lat p) * pi) / 180) / 2)
              + cos ((lat p * pi) / 180) * cos ((lat q * pi) / 180)
                * sin ((((lng q - lng p) * pi) / 180) / 2) * sin ((((lng q - lng p) * pi) / 180) / 2)
           \<le> 1"
  (is "0 \<le> ?a \<and> ?a \<le> 1")
proof -
  define f1 where "f1 = (lat p * pi) / 180"
  define f2 where "f2 = (lat q * pi) / 180"
  define dl where "dl = ((lng q - lng p) * pi) / 180"
  have d: "((lat q - lat p) * pi) / 180 = f2 - f1" by (simp add: f1_def f2_def field_simps)
  have "?a = (1 - cos (f2 - f1)) / 2 + cos f1 * cos f2 * ((1 - cos dl) / 2)"
    unfolding d f1_def [symmetric] f2_def [symmetric] dl_def [symmetric]
    by (simp only: sin_half_sq mult.assoc)
  also have "\<dots> = (1 - (sin f1 * sin f2 + cos f1 * cos f2 * cos dl)) / 2"
    by (simp add: cos_diff field_simps)
  finally have e: "?a = (1 - (sin f1 * sin f2 + cos f1 * cos f2 * cos dl)) / 2" .
  have "\<bar>sin f1 * sin f2 + cos f1 * cos f2 * cos dl\<bar> \<le> 1"
    by (rule unit_vectors_dot) simp_all
  then show ?thesis unfolding e by (simp add: abs_le_iff)
qed

subsection \<open>Z-index formulas that follow the rank\<close>

text \<open>
  Three of the four z-index formulas decrease strictly as the rank grows from 1 to 20:
  \<open>30 - min(rank, 21)\<close>, \<open>21 - rank\<close> and \<open>100 - rank\<close>.
\<close>

lemma zIndex_decreases_with_rank:
  "0 < r1 \<Longrightarrow> r1 < r2 \<Longrightarrow> r2 \<le> 20 \<Longrightarrow>
     gm_zIndex r1 > gm_zIndex r2 \<and> dgv_zIndex_icon r1 > dgv_zIndex_icon r2
     \<and> dgv_zIndex_label r1 > dgv_zIndex_label r2"
  by (simp add: gm_zIndex_def dgv_zIndex_icon_def dgv_zIndex_label_def)

subsection \<open>Defaults\<close>

text \<open>
  The constants at the head of \<open>DetailedGridView\<close> (\<open>Number(\<dots>) || default\<close>): a grid
  size that converts to \<open>NaN\<close> or 0 becomes 13, such a distance 2.5, a latitude or
  longitude that is missing or converts to \<open>NaN\<close> becomes 0, and none is \<open>NaN\<close>.
\<close>

lemma component_defaults:
  "(falsy (Number_js parse gs) \<longrightarrow> dgv_gridSize parse gs = Num 13)
   \<and> (falsy (Number_js parse dk) \<longrightarrow> dgv_distance parse dk = Num 2.5)
   \<and> (loc = None \<or> Number_js parse (opt_chain loc raw_lat) = NaN
        \<longrightarrow> dgv_location_lat parse loc = Num 0)
   \<and> (loc = None \<or> Number_js parse (opt_chain loc raw_lng) = NaN
        \<longrightarrow> dgv_location_lng parse loc = Num 0)
   \<and> dgv_gridSize parse gs \<noteq> NaN \<and> dgv_distance parse dk \<noteq> NaN
   \<and> dgv_location_lat parse loc \<noteq> NaN \<and> dgv_location_lng parse loc \<noteq> NaN"
  by (auto simp: dgv_gridSize_def dgv_distance_def dgv_location_lat_def dgv_location_lng_def
      js_or_def falsy_def Number_js_def opt_chain_def split: jsnum.splits option.splits)

text \<open>
  On a grid size and a distance that are nonzero numbers, the latitude of
  \<open>handleCSVDownload\<close> in the first two versions is the latitude of \<open>dgv_point\<close>.
\<close>

lemma csv_lat_unconverted_numbers:
  assumes "n \<noteq> 0" "d \<noteq> 0"
  shows "csv_lat_unconverted parse l (JNumber (Num (of_int n))) (JNumber (Num d)) i
           = Num (lat (dgv_point \<lparr>lat = l, lng = g\<rparr> d n (int i) j))"
  using assms
  by (simp add: csv_lat_unconverted_def jsval_or_def truthy_def falsy_def Number_js_def
      js_arith_def dgv_point_def startLat_def)

section \<open>Claims\<close>

subsection \<open>C1: coordinate of a grid cell\<close>




subsection \<open>C2: ranking classifier\<close>

text \<open>
  Claim C2, as amended. For a rank \<open>r\<close> with \<open>1 \<le> r \<le> 20\<close> and a rank \<open>h > 20\<close>:
  in \<open>GoogleMap.initializeMap\<close> the icon text of \<open>r\<close> is \<open>r.toString()\<close> (so \<open>"1"\<close> for 1
  and \<open>"20"\<close> for 20), the icon text of \<open>h\<close> is \<open>"20+"\<close>, its colour is the gray
  \<open>#9E9E9E\<close>, and its z-index is below that of \<open>r\<close>. In \<open>DetailedGridView\<close>,
  \<open>formatRankingLabel\<close> gives \<open>r.toString()\<close> when \<open>r\<close> is not 20 and \<open>"20+"\<close> for \<open>h\<close>,
  \<open>getRankingColor\<close> gives \<open>h\<close> the red \<open>#ef4444\<close> of ranks 16 and above, and the
  rank-based z-indices \<open>21 - rank\<close> (0 above 20) and \<open>100 - rank\<close> put \<open>h\<close> below \<open>r\<close>.
\<close>

theorem ranking_classifier:
  assumes "1 \<le> r" "r \<le> 20" "20 < h"
  shows "gm_iconText r = toString_js r \<and> gm_iconText 1 = ''1'' \<and> gm_iconText 20 = ''20''
       \<and> gm_iconText h = ''20+'' \<and> gm_iconColor h = ''#9E9E9E'' \<and> gm_zIndex h < gm_zIndex r
       \<and> (r \<noteq> 20 \<longrightarrow> formatRankingLabel r = toString_js r)
       \<and> formatRankingLabel h = ''20+'' \<and> getRankingColor h = ''#ef4444''
       \<and> dgv_zIndex_icon h < dgv_zIndex_icon r \<and> dgv_zIndex_label h < dgv_zIndex_label r"
proof -
  have c: "gm_iconText 1 = ''1''" "gm_iconText 20 = ''20''"
    by (simp_all add: gm_iconText_def toString_js_def digits_of.simps)
  show ?thesis
    unfolding c using assms
    by (simp add: gm_iconText_def gm_iconColor_def gm_zIndex_def formatRankingLabel_def
      getRankingColor_def dgv_zIndex_icon_def dgv_zIndex_label_def)
qed

text \<open>The theorem at ranks 7 and 25.\<close>

theorem ranking_classifier_witness:
  "gm_iconText 7 = ''7'' \<and> gm_iconText 25 = ''20+'' \<and> gm_iconColor 25 = ''#9E9E9E''
   \<and> gm_zIndex 25 < gm_zIndex 7 \<and> formatRankingLabel 7 = ''7'' \<and> formatRankingLabel 25 = ''20+''
   \<and> getRankingColor 25 = ''#ef4444'' \<and> dgv_zIndex_icon 25 < dgv_zIndex_icon 7
   \<and> dgv_zIndex_label 25 < dgv_zIndex_label 7"
  using ranking_classifier [of 7 25] by (simp add: toString_js_def digits_of.simps)

text \<open>
  The claim as stated fails in \<open>DetailedGridView\<close>: \<open>formatRankingLabel(20)\<close> is \<open>"20+"\<close>
  and not \<open>"20"\<close>, and \<open>getRankingColor(21)\<close> is the red of rank 16, not the gray that
  \<open>GoogleMap.initializeMap\<close> uses.
\<close>

theorem ranking_classifier_counterexample:
  "formatRankingLabel 20 = ''20+'' \<and> formatRankingLabel 20 \<noteq> toString_js 20
   \<and> getRankingColor 21 = ''#ef4444'' \<and> getRankingColor 21 = getRankingColor 16
   \<and> getRankingColor 21 \<noteq> gm_iconColor 21"
  by (simp add: formatRankingLabel_def getRankingColor_def gm_iconColor_def toString_js_def
      digits_of.simps)

subsection \<open>C3: z-order follows the rank\<close>

text \<open>
  Claim C3 fails in the third version of \<open>DetailedGridView\<close>, whose z-index is
  \<open>100 - (i * gridSize + j)\<close>. For grid size 3 and the rank matrix
  \<open>[[5, 3, 0], [0, 0, 0], [0, 0, 0]]\<close> the view creates two markers: rank 5 at cell
  \<open>(0, 0)\<close> with z-index 100 and rank 3 at cell \<open>(0, 1)\<close> with z-index 99, so the better
  rank is drawn below the worse one.
\<close>

theorem zIndex_by_cell_ignores_rank:
  "map (\<lambda>(cell, m). (cell, marker_rank m, zIndex m))
     (dgv_markers dgv_style_cell \<lparr>lat = 40, lng = - 74\<rparr> 2.5 3
        (Some [[5, 3, 0], [0, 0, 0], [0, 0, 0]]))
   = [((0, 0), 5, 100), ((0, 1), 3, 99)]"
  by (simp add: dgv_markers_def loop_range_def dgv_marker_at_def dgv_gridData_def
      dgv_style_cell_def dgv_zIndex_cell_def List.map_filter_def upt_rec)

subsection \<open>C4: the centre cell\<close>

text \<open>
  Claim C4. For grid size 13, spacing 2.5 and centre \<open>{lat: 40, lng: -74}\<close>, the coordinate
  of cell \<open>(6, 6)\<close> is the centre itself, both as the point of index \<open>6 * 13 + 6\<close> that
  \<open>GoogleMap.initializeMap\<close> generates and as \<open>DetailedGridView\<close> computes it.
\<close>

theorem center_cell_is_center:
  "gm_points \<lparr>lat = 40, lng = - 74\<rparr> 13 2.5 ! (6 * 13 + 6) = \<lparr>lat = 40, lng = - 74\<rparr>
   \<and> dgv_point \<lparr>lat = 40, lng = - 74\<rparr> 2.5 13 6 6 = \<lparr>lat = 40, lng = - 74\<rparr>"
proof
  have "gm_points \<lparr>lat = 40, lng = - 74\<rparr> 13 2.5 ! (6 * nat 13 + 6)
          = gm_point \<lparr>lat = 40, lng = - 74\<rparr> 13 2.5 (int 6) (int 6)"
    by (rule gm_points_nth) simp_all
  then show "gm_points \<lparr>lat = 40, lng = - 74\<rparr> 13 2.5 ! (6 * 13 + 6) = \<lparr>lat = 40, lng = - 74\<rparr>"
    by (simp add: gm_point_def)
  show "dgv_point \<lparr>lat = 40, lng = - 74\<rparr> 2.5 13 6 6 = \<lparr>lat = 40, lng = - 74\<rparr>"
    by (simp add: dgv_point_def startLat_def startLng_def)
qed

subsection \<open>C5: rows of the CSV export\<close>

text \<open>
  Claim C5. The exported text is the preamble, the header line
  \<open>Row,Column,Latitude,Longitude,Ranking\<close>, then for every row \<open>i\<close> of the rank matrix and
  every entry \<open>j\<close> of that row, in row-major order, the line
  \<open>i+1,j+1,latitude,longitude,rank\<close> with the rank printed as it is (a rank of 0 as
  \<open>0\<close>), then the metrics block; there are as many data rows as the matrix has entries.
\<close>

theorem csv_one_row_per_cell:
  "handleCSVDownload preamble metrics fmt loc d n g
     = preamble @ ''Row,Column,Latitude,Longitude,Ranking'' @ [CHR 0x0A]
       @ concat (concat (map (\<lambda>i. map (\<lambda>j.
             toString_js (int i + 1) @ '','' @ toString_js (int j + 1) @ '',''
             @ fmt (lat (dgv_point loc d n (int i) (int j))) @ '',''
             @ fmt (lng (dgv_point loc d n (int i) (int j))) @ '',''
             @ toString_js (g ! i ! j) @ [CHR 0x0A]) [0..<length (g ! i)]) [0..<length g]))
       @ metrics
   \<and> length (csv_data_rows fmt loc d n g) = sum_list (map length g)"
proof
  show "handleCSVDownload preamble metrics fmt loc d n g
     = preamble @ ''Row,Column,Latitude,Longitude,Ranking'' @ [CHR 0x0A]
       @ concat (concat (map (\<lambda>i. map (\<lambda>j.
             toString_js (int i + 1) @ '','' @ toString_js (int j + 1) @ '',''
             @ fmt (lat (dgv_point loc d n (int i) (int j))) @ '',''
             @ fmt (lng (dgv_point loc d n (int i) (int j))) @ '',''
             @ toString_js (g ! i ! j) @ [CHR 0x0A]) [0..<length (g ! i)]) [0..<length g]))
       @ metrics"
    by (simp add: handleCSVDownload_def csv_data_rows_cells csv_line_def Let_def)
  show "length (csv_data_rows fmt loc d n g) = sum_list (map length g)"
    by (rule length_csv_data_rows)
qed

subsection \<open>C6: which cells get a marker\<close>

text \<open>
  Claim C6. For a cell \<open>(i, j)\<close> of the grid, a marker is created exactly when a rank
  matrix is supplied, its entry \<open>[i][j]\<close> is defined, and that entry is not 0; the
  marker then carries the cell's coordinate, the entry as its rank, and the style of that
  rank. In \<open>GoogleMap.initializeMap\<close> it is the marker for the point of index
  \<open>i * gridSize + j\<close>, with the icon colour, icon text and z-index of the rank; in the
  three versions of \<open>DetailedGridView\<close> it is the marker of the cell, with the rank image
  and \<open>21 - rank\<close>, the labelled circle and \<open>100 - rank\<close>, and the rank image and
  \<open>100 - (i * gridSize + j)\<close>. No point and no cell gets two markers, so a cell whose
  rank is 0 has none.
\<close>

theorem marker_iff_rank_nonzero:
  assumes "int i < gridSize" "int j < gridSize"
  shows "(((i * nat gridSize + j, m)
            \<in> set (gm_markers gridData gridSize (gm_points center gridSize pointDistance)))
          \<longleftrightarrow> (\<exists>g. gridData = Some g \<and> i < length g \<and> j < length (g ! i) \<and> g ! i ! j \<noteq> 0
                \<and> m = \<lparr>position = gm_point center gridSize pointDistance (int i) (int j),
                        icon = SvgCircle (gm_iconColor (g ! i ! j)) (gm_iconText (g ! i ! j)),
                        zIndex = gm_zIndex (g ! i ! j), marker_rank = g ! i ! j\<rparr>))
       \<and> ((((i, j), m) \<in> set (dgv_markers dgv_style_icon center pointDistance gridSize gridData))
          \<longleftrightarrow> (\<exists>g. gridData = Some g \<and> i < length g \<and> j < length (g ! i) \<and> g ! i ! j \<noteq> 0
                \<and> m = \<lparr>position = dgv_point center pointDistance gridSize (int i) (int j),
                        icon = RankImage (rank_icon_url (g ! i ! j)),
                        zIndex = dgv_zIndex_icon (g ! i ! j), marker_rank = g ! i ! j\<rparr>))
       \<and> ((((i, j), m) \<in> set (dgv_markers dgv_style_label center pointDistance gridSize gridData))
          \<longleftrightarrow> (\<exists>g. gridData = Some g \<and> i < length g \<and> j < length (g ! i) \<and> g ! i ! j \<noteq> 0
                \<and> m = \<lparr>position = dgv_point center pointDistance gridSize (int i) (int j),
                        icon = LabelledCircle (getRankingColor (g ! i ! j))
                                 (formatRankingLabel (g ! i ! j)),
                        zIndex = dgv_zIndex_label (g ! i ! j), marker_rank = g ! i ! j\<rparr>))
       \<and> ((((i, j), m) \<in> set (dgv_markers dgv_style_cell center pointDistance gridSize gridData))
          \<longleftrightarrow> (\<exists>g. gridData = Some g \<and> i < length g \<and> j < length (g ! i) \<and> g ! i ! j \<noteq> 0
                \<and> m = \<lparr>position = dgv_point center pointDistance gridSize (int i) (int j),
                        icon = RankImage (rank_icon_url (g ! i ! j)),
                        zIndex = dgv_zIndex_cell gridSize (int i) (int j),
                        marker_rank = g ! i ! j\<rparr>))
       \<and> distinct (map fst (gm_markers gridData gridSize (gm_points center gridSize pointDistance)))
       \<and> distinct (map fst (dgv_markers style center pointDistance gridSize gridData))"
  using gm_markers_cell_marker [OF assms, of m gridData center pointDistance]
    dgv_markers_cell_marker [OF assms, of m dgv_style_icon center pointDistance gridData]
    dgv_markers_cell_marker [OF assms, of m dgv_style_label center pointDistance gridData]
    dgv_markers_cell_marker [OF assms, of m dgv_style_cell center pointDistance gridData]
    distinct_gm_markers [of gridData gridSize] distinct_dgv_markers [of style]
  by (simp add: dgv_style_icon_def dgv_style_label_def dgv_style_cell_def)

text \<open>
  The theorem on a 3 by 3 grid whose first row holds the ranks 5, 3 and 0. Cell
  \<open>(0, 1)\<close>, of rank 3, has its marker in every view: the green circle with text \<open>3\<close> and
  z-index 27, the image \<open>3.png\<close> with z-index 18, the emerald circle labelled \<open>3\<close> with
  z-index 97, and the image \<open>3.png\<close> with z-index 99. Cell \<open>(0, 2)\<close>, of rank 0, has no
  marker.
\<close>

theorem marker_iff_rank_nonzero_witness:
  "(0 * nat 3 + 1,
      \<lparr>position = gm_point \<lparr>lat = 40, lng = - 74\<rparr> 3 1 (int 0) (int 1),
       icon = SvgCircle ''#4CAF50'' ''3'', zIndex = 27, marker_rank = 3\<rparr>)
     \<in> set (gm_markers (Some [[5, 3, 0], [0, 0, 0], [0, 0, 0]]) 3
              (gm_points \<lparr>lat = 40, lng = - 74\<rparr> 3 1))
   \<and> ((0, 1),
      \<lparr>position = dgv_point \<lparr>lat = 40, lng = - 74\<rparr> 1 3 (int 0) (int 1),
       icon = RankImage ''/images/rank-icons/3.png'', zIndex = 18, marker_rank = 3\<rparr>)
     \<in> set (dgv_markers dgv_style_icon \<lparr>lat = 40, lng = - 74\<rparr> 1 3
              (Some [[5, 3, 0], [0, 0, 0], [0, 0, 0]]))
   \<and> ((0, 1),
      \<lparr>position = dgv_point \<lparr>lat = 40, lng = - 74\<rparr> 1 3 (int 0) (int 1),
       icon = LabelledCircle ''#059669'' ''3'', zIndex = 97, marker_rank = 3\<rparr>)
     \<in> set (dgv_markers dgv_style_label \<lparr>lat = 40, lng = - 74\<rparr> 1 3
              (Some [[5, 3, 0], [0, 0, 0], [0, 0, 0]]))
   \<and> ((0, 1),
      \<lparr>position = dgv_point \<lparr>lat = 40, lng = - 74\<rparr> 1 3 (int 0) (int 1),
       icon = RankImage ''/images/rank-icons/3.png'', zIndex = 99, marker_rank = 3\<rparr>)
     \<in> set (dgv_markers dgv_style_cell \<lparr>lat = 40, lng = - 74\<rparr> 1 3
              (Some [[5, 3, 0], [0, 0, 0], [0, 0, 0]]))
   \<and> (\<forall>m. (0 * nat 3 + 2, m)
           \<notin> set (gm_markers (Some [[5, 3, 0], [0, 0, 0], [0, 0, 0]]) 3
                    (gm_points \<lparr>lat = 40, lng = - 74\<rparr> 3 1)))
   \<and> (\<forall>m. ((0, 2), m)
           \<notin> set (dgv_markers dgv_style_icon \<lparr>lat = 40, lng = - 74\<rparr> 1 3
                    (Some [[5, 3, 0], [0, 0, 0], [0, 0, 0]])))"
proof -
  let ?g = "Some [[5, 3, 0], [0, 0, 0], [0, 0, 0 :: int]]"
  let ?c = "\<lparr>lat = 40, lng = - 74\<rparr>"
  have styles: "gm_iconColor 3 = ''#4CAF50''" "gm_iconText 3 = ''3''" "gm_zIndex 3 = 27"
    "rank_icon_url 3 = ''/images/rank-icons/3.png''" "dgv_zIndex_icon 3 = 18"
    "getRankingColor 3 = ''#059669''" "formatRankingLabel 3 = ''3''" "dgv_zIndex_label 3 = 97"
    by (simp_all add: gm_iconColor_def gm_iconText_def gm_zIndex_def rank_icon_url_def
        dgv_zIndex_icon_def getRankingColor_def formatRankingLabel_def dgv_zIndex_label_def
        toString_js_def digits_of.simps)
  have hit: "int 0 < (3::int)" "int 1 < (3::int)" and miss: "int 2 < (3::int)" by simp_all
  show ?thesis
    using marker_iff_rank_nonzero [OF hit(1) hit(2), where gridData = ?g and center = ?c
        and pointDistance = 1]
      marker_iff_rank_nonzero [OF hit(1) miss, where gridData = ?g and center = ?c
        and pointDistance = 1]
    by (simp add: styles dgv_zIndex_cell_def)
qed

subsection \<open>C7: great-circle distance\<close>

text \<open>
  Claim C7. The haversine distance (Earth radius 6371 km) from a coordinate to itself is 0,
  and the distance from \<open>a\<close> to \<open>b\<close> equals the distance from \<open>b\<close> to \<open>a\<close>.
\<close>

theorem haversine_zero_and_symmetric:
  "haversine a a = 0 \<and> haversine a b = haversine b a"
proof
  show "haversine a a = 0"
    by (simp add: haversine_def atan2_def)
  have s: "sin (((x - y) * pi) / 180 / 2) * sin (((x - y) * pi) / 180 / 2)
         = sin (((y - x) * pi) / 180 / 2) * sin (((y - x) * pi) / 180 / 2)" for x y :: real
  proof -
    have "((x - y) * pi) / 180 / 2 = - (((y - x) * pi) / 180 / 2)" by (simp add: field_simps)
    then show ?thesis by simp
  qed
  show "haversine a b = haversine b a"
    unfolding haversine_def Let_def
    using s [of "lat b" "lat a"] s [of "lng b" "lng a"]
    by (simp add: mult.commute mult.left_commute mult.assoc)
qed

subsection \<open>C8: malformed grid input\<close>

text \<open>
  Claim C8, as amended. The grid computation validates nothing and rejects nothing: once
  the Maps API has loaded, \<open>GoogleMap.initializeMap\<close> returns its points and markers for
  every centre, grid size and spacing, and the number of points is \<open>n * n\<close> for a positive
  grid size \<open>n\<close> and 0 for a non-positive one. (\<open>DetailedGridView\<close> replaces \<open>NaN\<close> and 0
  by defaults before it computes; see C10.)
\<close>

theorem grid_inputs_never_rejected:
  "initializeMap Loaded c n s gd = Inr (gm_points c n s, gm_markers gd n (gm_points c n s))
   \<and> length (gm_points c n s) = nat n * nat n"
  by (simp add: initializeMap_def Let_def length_gm_points)

text \<open>
  The claim as stated fails: for grid size 0 and spacing \<open>-1\<close>, both non-positive,
  \<open>GoogleMap.initializeMap\<close> returns normally, with no points and no markers, instead of
  an error.
\<close>

theorem malformed_grid_input_counterexample:
  "initializeMap Loaded \<lparr>lat = 40, lng = - 74\<rparr> 0 (- 1) None = Inr ([], [])"
  by (simp add: initializeMap_def gm_points_def loop_range_def gm_markers_def)

subsection \<open>C9: mirror symmetry of the grid\<close>

text \<open>
  Claim C9, as amended. With \<open>offset = floor(n / 2)\<close>: in \<open>GoogleMap.initializeMap\<close>
  every point is the centre plus a latitude offset \<open>((i - offset) * s) / 69\<close> and a
  longitude offset \<open>((j - offset) * s) / (69 * cos(lat * (pi/180)))\<close>, and the offsets of
  cell \<open>(offset - di, offset - dj)\<close> are the offsets of cell \<open>(offset + di, offset + dj)\<close>
  with the sign negated, for every grid size and every displacement. (\<open>DetailedGridView\<close>
  adds steps to a start corner and is not covered.)
\<close>

theorem grid_mirror_symmetry:
  "gm_lat_offset n s (n div 2 - di) = - gm_lat_offset n s (n div 2 + di)
   \<and> gm_lng_offset c n s (n div 2 - dj) = - gm_lng_offset c n s (n div 2 + dj)
   \<and> gm_point c n s i j
       = \<lparr>lat = lat c + gm_lat_offset n s i, lng = lng c + gm_lng_offset c n s j\<rparr>"
  by (simp add: gm_point_offsets) (simp add: gm_lat_offset_def gm_lng_offset_def Let_def)

text \<open>
  The claim as stated fails in two ways. It pairs cell \<open>(offset - i, offset - j)\<close> with
  cell \<open>(i, j)\<close>: for the 13 by 13 grid and \<open>(i, j) = (0, 0)\<close> that pairs the centre cell
  \<open>(6, 6)\<close>, whose offset is 0, with the corner \<open>(0, 0)\<close>, whose offset is not. And in
  \<open>DetailedGridView\<close> even the cells on either side of the centre do not mirror in double
  precision: for the 13 by 13 grid of spacing 2.5 around latitude 40, row 5 lies
  \<open>0.022609293323931468\<close> south of the centre and row 7 lies \<open>0.022609293323924362\<close>
  north of it.
\<close>

theorem grid_mirror_symmetry_counterexample:
  "lat (gm_point \<lparr>lat = 40, lng = - 74\<rparr> 13 2.5 (13 div 2 - 0) (13 div 2 - 0)) - 40
     \<noteq> - (lat (gm_point \<lparr>lat = 40, lng = - 74\<rparr> 13 2.5 0 0) - 40)
   \<and> dgv_lat_double 40 2.5 13 (13 div 2 - 1) - 40
     \<noteq> - (dgv_lat_double 40 2.5 13 (13 div 2 + 1) - 40)"
proof
  show "lat (gm_point \<lparr>lat = 40, lng = - 74\<rparr> 13 2.5 (13 div 2 - 0) (13 div 2 - 0)) - 40
     \<noteq> - (lat (gm_point \<lparr>lat = 40, lng = - 74\<rparr> 13 2.5 0 0) - 40)"
    by (simp add: gm_point_def)
  have "(13::int) div 2 - 1 = 5" "(13::int) div 2 + 1 = 7" by simp_all
  then show "dgv_lat_double 40 2.5 13 (13 div 2 - 1) - 40
     \<noteq> - (dgv_lat_double 40 2.5 13 (13 div 2 + 1) - 40)"
    by (simp only: dgv_lat_double_row5 dgv_lat_double_row7) simp
qed

subsection \<open>C10: defaults of the grid view\<close>

text \<open>
  Claim C10 fails in \<open>handleCSVDownload\<close> of the first two versions of the view, which
  read \<open>gridResult.gridSize || 13\<close> without \<open>Number()\<close>. For a grid size given as the
  string \<open>thirteen\<close>, which is not numeric, the constants of the view fall back to 13, but
  the export keeps the string, \<open>gridSize - 1\<close> is \<open>NaN\<close>, and the latitude it writes for
  row 0 (and for every row) is \<open>NaN\<close>.
\<close>

theorem csv_grid_size_not_converted:
  "csv_lat_unconverted (\<lambda>s. NaN) 40 (JString ''thirteen'') (JNumber (Num 2.5)) 0 = NaN
   \<and> dgv_gridSize (\<lambda>s. NaN) (JString ''thirteen'') = Num 13"
  by (simp add: csv_lat_unconverted_def jsval_or_def truthy_def falsy_def Number_js_def
      js_arith_def dgv_gridSize_def js_or_def)

end
